theory Spec2Isabelle
  imports Complex_Main "HOL-Library.Log_Nat"
begin

section \<open>Python numbers\<close>

text \<open>
  Python integers are unbounded and are modelled by \<open>int\<close>. A Python float is an
  IEEE 754 double; it is modelled by the real number it denotes, and every float
  operation rounds its exact result to the nearest double, ties to even
  (\<open>rd\<close>). Overflow, subnormal numbers, infinities, NaN and the sign of a zero
  (\<open>-0.0\<close>) are outside the model: the magnitudes of this program (pixel
  coordinates, scale factors, micrometres) stay far inside the normal range.
\<close>

definition round_half_even :: "real \<Rightarrow> int" where
  "round_half_even y =
     (let f = \<lfloor>y\<rfloor>; r = y - of_int f
      in if r < 1/2 then f else if 1/2 < r then f + 1 else if even f then f else f + 1)"

definition pow2 :: "int \<Rightarrow> real" where
  "pow2 e = (if 0 \<le> e then 2 ^ nat e else 1 / 2 ^ nat (- e))"

text \<open>The exponent \<open>e\<close> with \<open>2 ^ e \<le> x < 2 ^ (e + 1)\<close>, for positive \<open>x\<close>.\<close>

definition binary_exponent :: "real \<Rightarrow> int" where
  "binary_exponent x =
     (if 1 \<le> x then int (floorlog 2 (nat \<lfloor>x\<rfloor>)) - 1
      else - int (floorlog 2 (nat (\<lceil>1 / x\<rceil> - 1))))"

text \<open>Rounding to a double: 53 significant bits, nearest, ties to even.\<close>

definition rd :: "real \<Rightarrow> real" where
  "rd x = (if x = 0 then 0
           else let e = binary_exponent \<bar>x\<bar> - 52
                in sgn x * of_int (round_half_even (\<bar>x\<bar> / pow2 e)) * pow2 e)"

definition float_of_int :: "int \<Rightarrow> real" where
  "float_of_int n = rd (of_int n)"

definition fadd :: "real \<Rightarrow> real \<Rightarrow> real" where
  "fadd a b = rd (a + b)"

definition fsub :: "real \<Rightarrow> real \<Rightarrow> real" where
  "fsub a b = rd (a - b)"

definition fmul :: "real \<Rightarrow> real \<Rightarrow> real" where
  "fmul a b = rd (a * b)"

text \<open>\<open>int(x)\<close> on a float truncates toward zero.\<close>

definition py_int :: "real \<Rightarrow> int" where
  "py_int x = (if 0 \<le> x then \<lfloor>x\<rfloor> else \<lceil>x\<rceil>)"

text \<open>
  \<open>n ** 0.5\<close> on a non-negative integer: the integer is converted to a float and
  the C library's \<open>pow\<close> is called. The model takes its result to be the correctly
  rounded square root. That is what the library returns when the root is itself a
  double, as for 0 and for 10000, the values the properties below depend on; for other
  arguments the library's result can differ from it in the last bit. An integer too
  large for a float, on which the conversion raises \<open>OverflowError\<close>, is outside the
  model.
\<close>

definition py_pow_half :: "int \<Rightarrow> real" where
  "py_pow_half n = rd (sqrt (float_of_int n))"

section \<open>Errors, images and the environment\<close>

text \<open>
  The exceptions of the module. The first three are the \<open>ValueError\<close>s that
  \<open>find_roi_position\<close> raises (panorama unreadable, zoom image unreadable, no match
  position found); \<open>ImageOpenFailed\<close> is the exception of \<open>Image.open\<close>;
  \<open>ZeroDivisionError\<close> is what a float division by zero raises.
\<close>

datatype error =
    PanoramaUnreadable string
  | ZoomUnreadable string
  | NoMatchPosition
  | ImageOpenFailed string
  | ZeroDivisionError

definition py_truediv :: "real \<Rightarrow> real \<Rightarrow> error + real" where
  "py_truediv a b = (if b = 0 then Inl ZeroDivisionError else Inr (rd (a / b)))"

text \<open>An image is known by its size and the file its pixels were decoded from.\<close>

record image =
  img_width :: int
  img_height :: int
  img_source :: string

datatype font = DefaultFont int | NamedFont string int

text \<open>
  What the module takes from OpenCV, Pillow and the file system: \<open>imread\<close> is
  \<open>cv2.imread\<close> (\<open>None\<close> for an unreadable file), \<open>image_open\<close> is
  \<open>Image.open(path).convert('RGB')\<close> (\<open>None\<close> when it raises),
  \<open>match_template\<close> is \<open>cv2.minMaxLoc(cv2.matchTemplate(panorama, template,
  TM_CCOEFF_NORMED))\<close> reduced to \<open>(max_val, max_loc)\<close>, and \<open>textbbox\<close> is
  \<open>draw.textbbox((0, 0), text, font=font)\<close>. Fonts are resolved by \<open>get_font\<close>
  and \<open>get_default_font\<close>, which probe platform font files; the font object they
  return is represented by the request that produced it.
\<close>

record env =
  imread :: "string \<Rightarrow> image option"
  image_open :: "string \<Rightarrow> image option"
  match_template :: "image \<Rightarrow> image \<Rightarrow> real \<times> (int \<times> int)"
  textbbox :: "font \<Rightarrow> string \<Rightarrow> int \<times> int \<times> int \<times> int"

definition get_default_font :: "int \<Rightarrow> font" where
  "get_default_font sz = DefaultFont sz"

definition get_font :: "string \<Rightarrow> int \<Rightarrow> font" where
  "get_font font_family font_size = NamedFont font_family font_size"

definition resize :: "image \<Rightarrow> int \<times> int \<Rightarrow> image" where
  "resize img new_size = img \<lparr> img_width := fst new_size, img_height := snd new_size \<rparr>"

section \<open>The ROI locator\<close>

text \<open>The scale literals of the source, each the double nearest to its decimal.\<close>

definition scales :: "real list" where
  "scales = [rd 1, rd (9/10), rd (8/10), rd (7/10), rd (6/10), rd (5/10), rd (4/10),
             rd (3/10), rd (25/100), rd (2/10), rd (15/100), rd (1/10)]"

type_synonym best = "(int \<times> int \<times> int \<times> int \<times> real) option \<times> real"

text \<open>The loop over the scales; its state is \<open>(best_match, best_confidence)\<close>.\<close>

fun scan_scales :: "env \<Rightarrow> image \<Rightarrow> image \<Rightarrow> real list \<Rightarrow> best \<Rightarrow> best" where
  "scan_scales E panorama zoom_img [] st = st"
| "scan_scales E panorama zoom_img (scale # rest) (best_match, best_confidence) =
     (let new_w = py_int (fmul (float_of_int (img_width zoom_img)) scale);
          new_h = py_int (fmul (float_of_int (img_height zoom_img)) scale)
      in if new_w \<ge> img_width panorama \<or> new_h \<ge> img_height panorama then
           scan_scales E panorama zoom_img rest (best_match, best_confidence)
         else if new_w < 10 \<or> new_h < 10 then
           scan_scales E panorama zoom_img rest (best_match, best_confidence)
         else
           let template = resize zoom_img (new_w, new_h);
               (max_val, max_loc) = match_template E panorama template
           in if max_val > best_confidence then
                scan_scales E panorama zoom_img rest
                  (Some (fst max_loc, snd max_loc, new_w, new_h, scale), max_val)
              else scan_scales E panorama zoom_img rest (best_match, best_confidence))"

definition find_roi_position ::
  "env \<Rightarrow> string \<Rightarrow> string \<Rightarrow> error + (int \<times> int \<times> int \<times> int \<times> real)" where
  "find_roi_position E panorama_path zoom_path =
     (case imread E panorama_path of
        None \<Rightarrow> Inl (PanoramaUnreadable panorama_path)
      | Some panorama \<Rightarrow>
         (case imread E zoom_path of
            None \<Rightarrow> Inl (ZoomUnreadable zoom_path)
          | Some zoom_img \<Rightarrow>
             (case scan_scales E panorama zoom_img scales (None, - 1) of
                (None, best_confidence) \<Rightarrow> Inl NoMatchPosition
              | (Some (x, y, w, h, scale), best_confidence) \<Rightarrow>
                  Inr (x, y, w, h, best_confidence))))"

text \<open>
  The specification's notion of a scale that produces a valid template: both resized
  dimensions are strictly below the panorama's and at least 10 pixels.
\<close>

definition valid_template :: "image \<Rightarrow> image \<Rightarrow> real \<Rightarrow> bool" where
  "valid_template panorama zoom_img scale =
     (let new_w = py_int (fmul (float_of_int (img_width zoom_img)) scale);
          new_h = py_int (fmul (float_of_int (img_height zoom_img)) scale)
      in new_w < img_width panorama \<and> new_h < img_height panorama \<and> 10 \<le> new_w \<and> 10 \<le> new_h)"

section \<open>Drawing\<close>

text \<open>
  A colour is the tuple of channel values the caller passes. The \<open>ImageDraw\<close>
  object is modelled by the list of the drawing calls made on it, in order; a canvas
  is its size and the calls that painted it. \<open>Line\<close> is \<open>draw.line\<close> between
  integer points, \<open>LineF\<close> the same call between float points, \<open>Rectangle\<close> is
  \<open>draw.rectangle([x1, y1, x2, y2], outline)\<close>, \<open>Paste\<close> is \<open>canvas.paste\<close>.
\<close>

type_synonym color = "int list"

datatype draw_op =
    Line "int \<times> int" "int \<times> int" color int
  | LineF "real \<times> real" "real \<times> real" color int
  | Rectangle int int int int color
  | FilledPolygon "(int \<times> int) list" color
  | OutlinedPolygon "(int \<times> int) list" color int
  | Ellipse int int int int color int
  | Text "int \<times> int" string color font
  | Paste image "int \<times> int"

record canvas =
  canvas_size :: "int \<times> int"
  canvas_ops :: "draw_op list"


subsection \<open>Dashed lines\<close>

text \<open>
  One drawn segment of \<open>draw_dashed_line\<close>: the body of the \<open>if drawing\<close> branch.
  \<open>current_pos\<close> and \<open>dash_length\<close> are integers, \<open>length\<close> and the unit
  vector are floats; \<open>min(dash_length, length - current_pos)\<close> returns the integer
  \<open>dash_length\<close> unless the float remainder is smaller.
\<close>

definition dash_segment ::
  "int \<times> int \<Rightarrow> real \<times> real \<Rightarrow> real \<Rightarrow> int \<Rightarrow> int \<Rightarrow> color \<Rightarrow> int \<Rightarrow> draw_op" where
  "dash_segment start u line_length dash_length current_pos color width =
     (let x1 = fst start; y1 = snd start; ux = fst u; uy = snd u;
          remaining = fsub line_length (float_of_int current_pos);
          seg_end_pos = (if remaining < of_int dash_length
                         then fadd (float_of_int current_pos) remaining
                         else float_of_int (current_pos + dash_length));
          seg_start = (fadd (float_of_int x1) (fmul ux (float_of_int current_pos)),
                       fadd (float_of_int y1) (fmul uy (float_of_int current_pos)));
          seg_end = (fadd (float_of_int x1) (fmul ux seg_end_pos),
                     fadd (float_of_int y1) (fmul uy seg_end_pos))
      in LineF seg_start seg_end color width)"

text \<open>The \<open>while current_pos < length\<close> loop; \<open>None\<close> means that it runs forever.\<close>

partial_function (option) dash_loop ::
  "int \<times> int \<Rightarrow> real \<times> real \<Rightarrow> real \<Rightarrow> color \<Rightarrow> int \<Rightarrow> int \<Rightarrow> int
     \<Rightarrow> int \<Rightarrow> bool \<Rightarrow> draw_op list \<Rightarrow> draw_op list option" where
  "dash_loop start u line_length color width dash_length gap_length current_pos drawing draw =
     (if of_int current_pos < line_length then
        (if drawing then
           dash_loop start u line_length color width dash_length gap_length
             (current_pos + dash_length) (\<not> drawing)
             (draw @ [dash_segment start u line_length dash_length current_pos color width])
         else
           dash_loop start u line_length color width dash_length gap_length
             (current_pos + gap_length) (\<not> drawing) draw)
      else Some draw)"

definition draw_dashed_line ::
  "draw_op list \<Rightarrow> int \<times> int \<Rightarrow> int \<times> int \<Rightarrow> color \<Rightarrow> int \<Rightarrow> int \<Rightarrow> int
     \<Rightarrow> (error + draw_op list) option" where
  "draw_dashed_line draw start end_point color width dash_length gap_length =
     (let x1 = fst start; y1 = snd start; x2 = fst end_point; y2 = snd end_point;
          dx = x2 - x1;
          dy = y2 - y1;
          line_length = py_pow_half (dx ^ 2 + dy ^ 2)
      in if line_length = 0 then Some (Inr draw)
         else
           (case py_truediv (float_of_int dx) line_length of
              Inl e \<Rightarrow> Some (Inl e)
            | Inr ux \<Rightarrow>
               (case py_truediv (float_of_int dy) line_length of
                  Inl e \<Rightarrow> Some (Inl e)
                | Inr uy \<Rightarrow>
                    map_option Inr
                      (dash_loop start (ux, uy) line_length color width dash_length gap_length
                         0 True draw))))"

text \<open>The Euclidean length of a drawn line segment.\<close>

fun segment_length :: "draw_op \<Rightarrow> real" where
  "segment_length (LineF p q c w) = sqrt ((fst q - fst p) ^ 2 + (snd q - snd p) ^ 2)"
| "segment_length (Line p q c w) =
     sqrt (of_int ((fst q - fst p) ^ 2 + (snd q - snd p) ^ 2))"
| "segment_length other = 0"

subsection \<open>Formatting numbers\<close>

text \<open>
  \<open>format(x, '.Nf')\<close>: the exact value of the float, rounded half-even to \<open>N\<close>
  decimals. A string is a list of bytes here, so the micro sign is its two UTF-8 bytes.
\<close>

definition digit_char :: "nat \<Rightarrow> char" where
  "digit_char d = ''0123456789'' ! d"

fun show_nat :: "nat \<Rightarrow> string" where
  "show_nat n = (if n < 10 then [digit_char n] else show_nat (n div 10) @ [digit_char (n mod 10)])"

declare show_nat.simps [simp del]

definition format_fixed :: "nat \<Rightarrow> real \<Rightarrow> string" where
  "format_fixed prec x =
     (let n = nat (round_half_even (\<bar>x\<bar> * 10 ^ prec));
          int_part = show_nat (n div 10 ^ prec);
          frac = show_nat (n mod 10 ^ prec);
          frac_part = replicate (prec - length frac) (CHR ''0'') @ frac
      in (if x < 0 then ''-'' else '''') @ int_part @
         (if prec = 0 then '''' else ''.'' @ frac_part))"

definition micro_sign :: string where
  "micro_sign = [CHR 0xCE, CHR 0xBC]"

subsection \<open>Scale bars\<close>

text \<open>The label of a scale bar (lines 165-168 of \<open>draw_scale_bar\<close>).\<close>

definition scale_bar_text :: "real \<Rightarrow> string" where
  "scale_bar_text length_um =
     (if length_um \<ge> 1000 then format_fixed 1 (rd (length_um / 1000)) @ '' mm''
      else format_fixed 0 length_um @ '' '' @ micro_sign @ ''m'')"

definition draw_scale_bar ::
  "env \<Rightarrow> draw_op list \<Rightarrow> int \<times> int \<Rightarrow> int \<Rightarrow> real \<Rightarrow> color \<Rightarrow> int \<Rightarrow> int \<Rightarrow> bool
     \<Rightarrow> string \<Rightarrow> string \<Rightarrow> int \<Rightarrow> draw_op list" where
  "draw_scale_bar E draw position length_pixels length_um color thickness font_size
       show_text style font_family text_gap =
     (let x = fst position; y = snd position;
          draw1 = draw @ [Line (x, y) (x + length_pixels, y) color thickness];
          end_height = thickness * 3;
          draw2 =
            (if style = ''ends'' then
               draw1 @ [Line (x, y - end_height) (x, y + end_height) color thickness,
                        Line (x + length_pixels, y - end_height)
                             (x + length_pixels, y + end_height) color thickness]
             else if style = ''ticks'' then
               (let mid_x = x + length_pixels div 2;
                    mid_height = end_height div 2
                in draw1 @ [Line (x, y - end_height) (x, y + end_height) color thickness,
                            Line (x + length_pixels, y - end_height)
                                 (x + length_pixels, y + end_height) color thickness,
                            Line (mid_x, y - mid_height) (mid_x, y + mid_height) color
                                 (max 1 (thickness div 2))])
             else draw1)
      in if show_text then
           (let font = get_font font_family font_size;
                text = scale_bar_text length_um;
                bbox = textbbox E font text;
                text_width = fst (snd (snd bbox)) - fst bbox;
                text_height = snd (snd (snd bbox)) - fst (snd bbox);
                text_x = x + (length_pixels - text_width) div 2;
                text_y = (if style = ''line'' then y - text_height - text_gap
                          else y - end_height - text_height - text_gap)
            in draw2 @ [Text (text_x, text_y) text color font])
         else draw2)"

subsection \<open>Annotations\<close>


subsection \<open>Watermark\<close>

text \<open>
  The text is drawn on a transparent layer of the image's size with the colour extended
  by the opacity, and the layer is composited over the image: on the canvas this is
  one more drawing call.
\<close>

definition draw_watermark ::
  "env \<Rightarrow> canvas \<Rightarrow> string \<Rightarrow> string \<Rightarrow> int \<Rightarrow> int \<Rightarrow> color \<Rightarrow> canvas" where
  "draw_watermark E img text position opacity font_size color =
     (let font = get_default_font font_size;
          bbox = textbbox E font text;
          text_width = fst (snd (snd bbox)) - fst bbox;
          text_height = snd (snd (snd bbox)) - fst (snd bbox);
          margin = 20;
          img_width = fst (canvas_size img);
          img_height = snd (canvas_size img);
          pos =
            (if position = ''bottom-right'' then
               (img_width - text_width - margin, img_height - text_height - margin)
             else if position = ''bottom-left'' then
               (margin, img_height - text_height - margin)
             else if position = ''top-right'' then
               (img_width - text_width - margin, margin)
             else if position = ''top-left'' then
               (margin, margin)
             else
               ((img_width - text_width) div 2, (img_height - text_height) div 2));
          watermark_color = color @ [opacity]
      in img \<lparr> canvas_ops := canvas_ops img @ [Text pos text watermark_color font] \<rparr>)"

section \<open>Layout of the composite figure\<close>

text \<open>
  The layout block of \<open>create_zoom_figure\<close> (roi_zoom_tool_v2.py, lines 389-412).
  All quantities are Python integers, so they are \<open>int\<close> here, and Python's
  \<open>//\<close> on integers is the floor division \<open>div\<close> of HOL. The direction is
  the string the caller passes; every string other than \<open>right\<close>, \<open>left\<close> and
  \<open>bottom\<close> takes the last branch, as the source's \<open>else\<close> does.
\<close>

record layout =
  canvas_w :: int
  canvas_h :: int
  pano_pos :: "int \<times> int"
  zoom_pos :: "int \<times> int"

definition border_margin :: "int \<Rightarrow> int \<Rightarrow> int" where
  "border_margin box_thickness zoom_box_thickness = max box_thickness zoom_box_thickness + 5"

definition compute_layout ::
  "string \<Rightarrow> int \<Rightarrow> int \<Rightarrow> int \<Rightarrow> int \<Rightarrow> int \<Rightarrow> int \<Rightarrow> layout" where
  "compute_layout zoom_position pano_w pano_h zoom_w zoom_h padding margin =
     (if zoom_position = ''right'' then
        \<lparr> canvas_w = margin + pano_w + padding + zoom_w + margin,
          canvas_h = margin + max pano_h zoom_h + margin,
          pano_pos = (margin, margin + (max pano_h zoom_h - pano_h) div 2),
          zoom_pos = (margin + pano_w + padding, margin + (max pano_h zoom_h - zoom_h) div 2) \<rparr>
      else if zoom_position = ''left'' then
        \<lparr> canvas_w = margin + zoom_w + padding + pano_w + margin,
          canvas_h = margin + max pano_h zoom_h + margin,
          pano_pos = (margin + zoom_w + padding, margin + (max pano_h zoom_h - pano_h) div 2),
          zoom_pos = (margin, margin + (max pano_h zoom_h - zoom_h) div 2) \<rparr>
      else if zoom_position = ''bottom'' then
        \<lparr> canvas_w = margin + max pano_w zoom_w + margin,
          canvas_h = margin + pano_h + padding + zoom_h + margin,
          pano_pos = (margin + (max pano_w zoom_w - pano_w) div 2, margin),
          zoom_pos = (margin + (max pano_w zoom_w - zoom_w) div 2, margin + pano_h + padding) \<rparr>
      else
        \<lparr> canvas_w = margin + max pano_w zoom_w + margin,
          canvas_h = margin + zoom_h + padding + pano_h + margin,
          pano_pos = (margin + (max pano_w zoom_w - pano_w) div 2, margin + zoom_h + padding),
          zoom_pos = (margin + (max pano_w zoom_w - zoom_w) div 2, margin) \<rparr>)"

text \<open>
  The two properties the specification asks of a layout. A placed image is the pixel
  rectangle with top-left corner \<open>(x, y)\<close>, width \<open>w\<close> and height \<open>h\<close>; it covers
  the columns \<open>x, ..., x + w - 1\<close> and the rows \<open>y, ..., y + h - 1\<close>.
\<close>

definition rect_within :: "int \<Rightarrow> layout \<Rightarrow> int \<times> int \<Rightarrow> int \<Rightarrow> int \<Rightarrow> bool" where
  "rect_within margin L pos w h =
     (margin \<le> fst pos \<and> fst pos + w \<le> canvas_w L - margin \<and>
      margin \<le> snd pos \<and> snd pos + h \<le> canvas_h L - margin)"

definition rects_overlap :: "int \<times> int \<Rightarrow> int \<Rightarrow> int \<Rightarrow> int \<times> int \<Rightarrow> int \<Rightarrow> int \<Rightarrow> bool" where
  "rects_overlap p pw ph q qw qh =
     (fst p < fst q + qw \<and> fst q < fst p + pw \<and> snd p < snd q + qh \<and> snd q < snd p + ph)"

section \<open>The orchestrator\<close>

text \<open>
  The option dictionaries of \<open>create_zoom_figure\<close> are records whose fields are
  \<open>None\<close> for an absent key; \<open>get_or d\<close> is \<open>dict.get(key, d)\<close>. The scale-bar
  lengths are floats (the caller reads them from \<open>DoubleVar\<close>s).
\<close>

definition get_or :: "'a \<Rightarrow> 'a option \<Rightarrow> 'a" where
  "get_or d v = (case v of None \<Rightarrow> d | Some x \<Rightarrow> x)"

record scale_bar_config =
  sbc_enabled :: "bool option"
  sbc_position :: "string option"
  sbc_corner :: "string option"
  sbc_offset_x :: "int option"
  sbc_offset_y :: "int option"
  sbc_length_um :: "real option"
  sbc_pixels_per_um :: "real option"
  sbc_color :: "color option"
  sbc_thickness :: "int option"
  sbc_font_size :: "int option"
  sbc_style :: "string option"
  sbc_font_family :: "string option"
  sbc_text_gap :: "int option"












text \<open>The nested function \<open>draw_single_scale_bar\<close>; it calls \<open>draw_scale_bar\<close>
  without \<open>show_text\<close>, which is therefore the default \<open>True\<close>.\<close>

definition draw_single_scale_bar ::
  "env \<Rightarrow> draw_op list \<Rightarrow> layout \<Rightarrow> int \<Rightarrow> int \<Rightarrow> int \<Rightarrow> int
     \<Rightarrow> scale_bar_config \<Rightarrow> draw_op list" where
  "draw_single_scale_bar E draw L pano_w pano_h zoom_w zoom_h sb_config =
     (if \<not> get_or False (sbc_enabled sb_config) then draw
      else
        (let sb_position = get_or ''zoom'' (sbc_position sb_config);
             sb_corner = get_or ''right'' (sbc_corner sb_config);
             sb_offset_x = get_or 30 (sbc_offset_x sb_config);
             sb_offset_y = get_or 30 (sbc_offset_y sb_config);
             sb_length_um = get_or 100 (sbc_length_um sb_config);
             sb_pixels_per_um = get_or 1 (sbc_pixels_per_um sb_config);
             sb_color = get_or [0, 0, 0] (sbc_color sb_config);
             sb_thickness = get_or 5 (sbc_thickness sb_config);
             sb_font_size = get_or 24 (sbc_font_size sb_config);
             sb_style = get_or ''ends'' (sbc_style sb_config);
             sb_font_family = get_or ''Arial'' (sbc_font_family sb_config);
             sb_text_gap = get_or 5 (sbc_text_gap sb_config);
             sb_length_pixels = py_int (fmul sb_length_um sb_pixels_per_um);
             sb_x =
               (if sb_position = ''panorama'' then
                  (if sb_corner = ''left'' then fst (pano_pos L) + sb_offset_x
                   else fst (pano_pos L) + pano_w - sb_length_pixels - sb_offset_x)
                else
                  (if sb_corner = ''left'' then fst (zoom_pos L) + sb_offset_x
                   else fst (zoom_pos L) + zoom_w - sb_length_pixels - sb_offset_x));
             sb_y =
               (if sb_position = ''panorama'' then snd (pano_pos L) + pano_h - sb_offset_y
                else snd (zoom_pos L) + zoom_h - sb_offset_y)
         in draw_scale_bar E draw (sb_x, sb_y) sb_length_pixels sb_length_um sb_color
              sb_thickness sb_font_size True sb_style sb_font_family sb_text_gap))"













section \<open>Example inputs\<close>

text \<open>
  A 10 by 10 zoom image and an 11 by 11 panorama for which the normalized correlation
  peak is \<open>-1\<close> wherever the template is placed, as it is when every window of the
  panorama is a decreasing affine image of the template (a brightness ramp against the
  reversed ramp).
\<close>

definition anticorrelated_env :: env where
  "anticorrelated_env =
     \<lparr> imread = (\<lambda>p. if p = ''pano.png''
                      then Some \<lparr> img_width = 11, img_height = 11, img_source = p \<rparr>
                      else if p = ''zoom.png''
                      then Some \<lparr> img_width = 10, img_height = 10, img_source = p \<rparr>
                      else None),
       image_open = (\<lambda>p. if p = ''pano.png''
                      then Some \<lparr> img_width = 11, img_height = 11, img_source = p \<rparr>
                      else if p = ''zoom.png''
                      then Some \<lparr> img_width = 10, img_height = 10, img_source = p \<rparr>
                      else None),
       match_template = (\<lambda>panorama template. (- 1, (0, 0))),
       textbbox = (\<lambda>f s. (0, 0, 12 * int (length s), 20)) \<rparr>"

text \<open>
  A 200 by 100 panorama and an 80 by 80 zoom image whose correlation peak, at every
  scale, is \<open>peak\<close> at (30, 20); text is measured as 12 pixels per byte and 20
  pixels high. Then a scale bar whose pixel length has a fractional part, a scale bar
  of negative length, and an enabled watermark with empty text.
\<close>

definition example_env :: "real \<Rightarrow> env" where
  "example_env peak =
     \<lparr> imread = (\<lambda>p. if p = ''pano.png''
                      then Some \<lparr> img_width = 200, img_height = 100, img_source = p \<rparr>
                      else if p = ''zoom.png''
                      then Some \<lparr> img_width = 80, img_height = 80, img_source = p \<rparr>
                      else None),
       image_open = (\<lambda>p. if p = ''pano.png''
                      then Some \<lparr> img_width = 200, img_height = 100, img_source = p \<rparr>
                      else if p = ''zoom.png''
                      then Some \<lparr> img_width = 80, img_height = 80, img_source = p \<rparr>
                      else None),
       match_template = (\<lambda>panorama template. (peak, (30, 20))),
       textbbox = (\<lambda>f s. (0, 4, 12 * int (length s), 24)) \<rparr>"

definition empty_scale_bar_config :: scale_bar_config where
  "empty_scale_bar_config =
     \<lparr> sbc_enabled = None, sbc_position = None, sbc_corner = None, sbc_offset_x = None,
       sbc_offset_y = None, sbc_length_um = None, sbc_pixels_per_um = None, sbc_color = None,
       sbc_thickness = None, sbc_font_size = None, sbc_style = None, sbc_font_family = None,
       sbc_text_gap = None \<rparr>"

definition fractional_scale_bar :: scale_bar_config where
  "fractional_scale_bar =
     empty_scale_bar_config \<lparr> sbc_enabled := Some True, sbc_length_um := Some 10,
       sbc_pixels_per_um := Some (3/8) \<rparr>"






section \<open>Properties of the layout\<close>

text \<open>
  Claim C2. For the direction \<open>right\<close> the canvas is
  \<open>margin + pano_w + padding + zoom_w + margin\<close> wide and
  \<open>margin + max pano_h zoom_h + margin\<close> high, the panorama is placed at
  \<open>x = margin\<close> and the zoom image at \<open>x = margin + pano_w + padding\<close>, and each
  image's y offset is \<open>margin + (max_h - own_h) div 2\<close> in integer arithmetic with
  floor division. For a 200 by 100 panorama, an 80 by 80 zoom image, padding 20 and
  margin 8 (the margin of the default border thickness 3) this gives the canvas
  (316, 116), the panorama at (8, 8) and the zoom image at (228, 18).
\<close>

theorem layout_right_formula:
  "canvas_w (compute_layout ''right'' pano_w pano_h zoom_w zoom_h padding margin)
     = margin + pano_w + padding + zoom_w + margin
   \<and> canvas_h (compute_layout ''right'' pano_w pano_h zoom_w zoom_h padding margin)
     = margin + max pano_h zoom_h + margin
   \<and> pano_pos (compute_layout ''right'' pano_w pano_h zoom_w zoom_h padding margin)
     = (margin, margin + (max pano_h zoom_h - pano_h) div 2)
   \<and> zoom_pos (compute_layout ''right'' pano_w pano_h zoom_w zoom_h padding margin)
     = (margin + pano_w + padding, margin + (max pano_h zoom_h - zoom_h) div 2)
   \<and> border_margin 3 3 = 8
   \<and> compute_layout ''right'' 200 100 80 80 20 (border_margin 3 3)
     = \<lparr> canvas_w = 316, canvas_h = 116, pano_pos = (8, 8), zoom_pos = (228, 18) \<rparr>"
  by (simp add: compute_layout_def border_margin_def)

text \<open>
  Claim C7. For each of the four directions, positive image sizes, a non-negative
  padding and a non-negative margin, both placed images lie inside
  \<open>[margin, canvas_w - margin] \<times> [margin, canvas_h - margin]\<close> and the two placed
  images do not overlap.
\<close>

theorem layout_within_and_disjoint:
  assumes "zoom_position \<in> {''right'', ''left'', ''bottom'', ''top''}"
    and "0 < pano_w" and "0 < pano_h" and "0 < zoom_w" and "0 < zoom_h"
    and "0 \<le> padding" and "0 \<le> margin"
  shows "rect_within margin
           (compute_layout zoom_position pano_w pano_h zoom_w zoom_h padding margin)
           (pano_pos (compute_layout zoom_position pano_w pano_h zoom_w zoom_h padding margin))
           pano_w pano_h
       \<and> rect_within margin
           (compute_layout zoom_position pano_w pano_h zoom_w zoom_h padding margin)
           (zoom_pos (compute_layout zoom_position pano_w pano_h zoom_w zoom_h padding margin))
           zoom_w zoom_h
       \<and> \<not> rects_overlap
           (pano_pos (compute_layout zoom_position pano_w pano_h zoom_w zoom_h padding margin))
           pano_w pano_h
           (zoom_pos (compute_layout zoom_position pano_w pano_h zoom_w zoom_h padding margin))
           zoom_w zoom_h"
proof -
  have d: "\<And>a b::int. 0 \<le> (max a b - a) div 2 \<and> (max a b - a) div 2 + a \<le> max a b
                     \<and> 0 \<le> (max a b - b) div 2 \<and> (max a b - b) div 2 + b \<le> max a b"
    by (simp add: max_def) presburger
  note dh = d [of pano_h zoom_h] and dw = d [of pano_w zoom_w]
  from assms dh dw show ?thesis
    unfolding compute_layout_def rect_within_def rects_overlap_def
    by (simp del: insert_iff)
qed

theorem layout_within_and_disjoint_witness:
  "rect_within 8 (compute_layout ''bottom'' 200 100 80 80 0 8)
     (pano_pos (compute_layout ''bottom'' 200 100 80 80 0 8)) 200 100
   \<and> rect_within 8 (compute_layout ''bottom'' 200 100 80 80 0 8)
     (zoom_pos (compute_layout ''bottom'' 200 100 80 80 0 8)) 80 80
   \<and> \<not> rects_overlap (pano_pos (compute_layout ''bottom'' 200 100 80 80 0 8)) 200 100
     (zoom_pos (compute_layout ''bottom'' 200 100 80 80 0 8)) 80 80"
  using layout_within_and_disjoint [of "''bottom''" 200 100 80 80 0 8] by simp


section \<open>Exactness of float operations on integers\<close>

lemma round_half_even_of_int: "round_half_even (of_int m) = m"
  by (simp add: round_half_even_def)

lemma binary_exponent_of_int:
  "1 \<le> m \<Longrightarrow> binary_exponent (of_int m) = int (floorlog 2 (nat m)) - 1"
  by (simp add: binary_exponent_def)

text \<open>Every integer below \<open>2 ^ 53\<close> in magnitude is a double.\<close>

lemma rd_of_int:
  assumes "\<bar>n\<bar> < 2 ^ 53"
  shows "rd (of_int n) = of_int n"
proof (cases "n = 0")
  case True
  then show ?thesis by (simp add: rd_def)
next
  case False
  define a where "a = nat \<bar>n\<bar>"
  have a: "0 < a" "a < 2 ^ 53"
    using False assms by (auto simp: a_def nat_less_iff)
  have fl: "floorlog 2 a \<le> 53"
    using a by (intro floorlog_leI) auto
  have fl0: "0 < floorlog 2 a"
    using a by (simp add: floorlog_def)
  define k where "k = 53 - floorlog 2 a"
  have abs_n: "1 \<le> \<bar>n\<bar>"
    using False by simp
  have "binary_exponent (real_of_int \<bar>n\<bar>) = int (floorlog 2 a) - 1"
    unfolding a_def by (rule binary_exponent_of_int [OF abs_n])
  then have "binary_exponent \<bar>real_of_int n\<bar> = int (floorlog 2 a) - 1"
    by simp
  then have be: "binary_exponent \<bar>real_of_int n\<bar> - 52 = - int k"
    using fl fl0 by (simp add: k_def)
  have p: "pow2 (- int k) = 1 / 2 ^ k"
    by (simp add: pow2_def)
  have "\<bar>real_of_int n\<bar> * 2 ^ k = of_int (\<bar>n\<bar> * 2 ^ k)"
    by simp
  then have r: "round_half_even (\<bar>real_of_int n\<bar> * 2 ^ k) = \<bar>n\<bar> * 2 ^ k"
    by (simp only: round_half_even_of_int)
  have "rd (of_int n) = sgn (real_of_int n) * real_of_int (\<bar>n\<bar> * 2 ^ k) * (1 / 2 ^ k)"
    using False by (simp add: rd_def Let_def be p r)
  also have "\<dots> = sgn (real_of_int n) * \<bar>real_of_int n\<bar>"
    by simp
  also have "\<dots> = real_of_int n"
    by (rule mult_sgn_abs)
  finally show ?thesis .
qed

lemma float_of_int_exact: "\<bar>n\<bar> < 2 ^ 53 \<Longrightarrow> float_of_int n = of_int n"
  by (simp add: float_of_int_def rd_of_int)

lemma rd_0: "rd 0 = 0"
  by (simp add: rd_def)

lemma rd_small_numerals: "rd 1 = 1" "rd 100 = 100" "rd 10000 = 10000"
  using rd_of_int [of 1] rd_of_int [of 100] rd_of_int [of 10000] by simp_all

section \<open>Properties of the ROI locator\<close>

text \<open>
  Claim C1, at the input on which the code departs from it. The zoom image is 10 by
  10 and the panorama 11 by 11, both readable; scale 1.0 is in the list and gives a
  10 by 10 template, which is valid; the correlation peak of that template is \<open>-1\<close>.
  The peak is not greater than the initial \<open>best_confidence = -1\<close>, so no match is
  recorded and the call fails with the no-match error, although a scale produced a
  valid template.
\<close>

theorem find_roi_position_anticorrelated:
  "imread anticorrelated_env ''pano.png''
     = Some \<lparr> img_width = 11, img_height = 11, img_source = ''pano.png'' \<rparr>
   \<and> imread anticorrelated_env ''zoom.png''
     = Some \<lparr> img_width = 10, img_height = 10, img_source = ''zoom.png'' \<rparr>
   \<and> rd 1 \<in> set scales
   \<and> valid_template \<lparr> img_width = 11, img_height = 11, img_source = ''pano.png'' \<rparr>
        \<lparr> img_width = 10, img_height = 10, img_source = ''zoom.png'' \<rparr> (rd 1)
   \<and> find_roi_position anticorrelated_env ''pano.png'' ''zoom.png'' = Inl NoMatchPosition"
  by code_simp

section \<open>Properties of the dashed line\<close>

text \<open>
  Claim C10. When the start point equals the end point the call returns with nothing
  drawn; and for every pair of end points the call never raises a division by zero,
  since both divisions by the line length come after the test for length zero.
\<close>

theorem dashed_line_zero_length_guard:
  "draw_dashed_line draw p p color width dash_length gap_length = Some (Inr draw)
   \<and> draw_dashed_line draw start end_point color width dash_length gap_length
       \<noteq> Some (Inl ZeroDivisionError)"
proof
  have "py_pow_half ((fst p - fst p) ^ 2 + (snd p - snd p) ^ 2) = 0"
    by (simp add: py_pow_half_def float_of_int_def rd_0)
  then show "draw_dashed_line draw p p color width dash_length gap_length = Some (Inr draw)"
    by (simp add: draw_dashed_line_def Let_def)
next
  show "draw_dashed_line draw start end_point color width dash_length gap_length
          \<noteq> Some (Inl ZeroDivisionError)"
    by (auto simp: draw_dashed_line_def Let_def py_truediv_def)
qed

lemma sqrt_10000: "sqrt 10000 = 100"
  using real_sqrt_abs [of 100] by simp

lemma line_length_100: "d \<in> {100, - 100} \<Longrightarrow> py_pow_half (d ^ 2 + 0 ^ 2) = 100"
  by (auto simp: py_pow_half_def float_of_int_def rd_small_numerals sqrt_10000)

lemma segment_length_horizontal: "segment_length (LineF (a, y) (b, y) c w) = \<bar>b - a\<bar>"
  by simp

lemma coordinate_exact:
  assumes "\<bar>a\<bar> < 2 ^ 52" "\<bar>q\<bar> \<le> 100" "s \<in> {1, - 1}"
  shows "fadd (float_of_int a) (fmul (of_int s) (float_of_int q)) = of_int (a + s * q)"
proof -
  have sq: "\<bar>s * q\<bar> \<le> 100"
    using assms by auto
  have 1: "float_of_int q = of_int q" "float_of_int a = of_int a"
    using assms by (simp_all add: float_of_int_exact)
  have 2: "fmul (of_int s) (of_int q) = of_int (s * q)"
    unfolding fmul_def of_int_mult [symmetric] using sq by (intro rd_of_int) simp
  have 3: "fadd (of_int a) (of_int (s * q)) = of_int (a + s * q)"
    unfolding fadd_def of_int_add [symmetric] using sq assms(1) by (intro rd_of_int) simp
  show ?thesis
    by (simp only: 1 2 3)
qed

lemma coordinate_fixed:
  assumes "\<bar>y\<bar> < 2 ^ 52"
  shows "fadd (float_of_int y) (fmul 0 t) = of_int y"
  using assms by (simp add: fadd_def fmul_def rd_0 float_of_int_exact rd_of_int)

lemma remaining_exact:
  assumes "0 \<le> p" "p \<le> 100"
  shows "fsub 100 (float_of_int p) = 100 - of_int p"
proof -
  have "float_of_int p = of_int p"
    using assms by (simp add: float_of_int_exact)
  moreover have "rd (of_int (100 - p)) = of_int (100 - p)"
    using assms by (intro rd_of_int) simp
  ultimately show ?thesis
    by (simp add: fsub_def)
qed

lemma dash_segment_horizontal:
  assumes "\<bar>x1\<bar> < 2 ^ 52" "\<bar>y\<bar> < 2 ^ 52" "0 \<le> p" "p \<le> 85" "s \<in> {1, - 1}"
  shows "dash_segment (x1, y) (of_int s, 0) 100 15 p color width
         = LineF (of_int (x1 + s * p), of_int y) (of_int (x1 + s * (p + 15)), of_int y) color width"
proof -
  have r: "fsub 100 (float_of_int p) = 100 - of_int p"
    using assms by (intro remaining_exact) simp_all
  have c: "\<not> 100 - real_of_int p < 15"
    using assms by simp
  have x: "fadd (float_of_int x1) (fmul (of_int s) (float_of_int p)) = of_int (x1 + s * p)"
    "fadd (float_of_int x1) (fmul (of_int s) (float_of_int (p + 15))) = of_int (x1 + s * (p + 15))"
    using assms by (intro coordinate_exact; simp)+
  have y: "fadd (float_of_int y) (fmul 0 t) = of_int y" for t
    using assms by (intro coordinate_fixed)
  show ?thesis
    unfolding dash_segment_def Let_def fst_conv snd_conv r
    using c by (simp only: of_int_numeral if_False x y)
qed

lemma dash_loop_horizontal:
  assumes "\<bar>x1\<bar> < 2 ^ 52" "\<bar>y\<bar> < 2 ^ 52" "s \<in> {1, - 1}"
  shows "dash_loop (x1, y) (of_int s, 0) 100 color width 15 10 0 True draw
   = Some (draw @ map (\<lambda>p. LineF (of_int (x1 + s * p), of_int y)
                                (of_int (x1 + s * (p + 15)), of_int y) color width)
                       [0, 25, 50, 75])"
  using assms by (simp add: dash_loop.simps dash_segment_horizontal del: insert_iff)

lemma draw_dashed_line_horizontal:
  assumes "\<bar>x1\<bar> < 2 ^ 52" "\<bar>y\<bar> < 2 ^ 52" "s \<in> {1, - 1}"
  shows "draw_dashed_line draw (x1, y) (x1 + s * 100, y) color width 15 10
   = Some (Inr (draw @ map (\<lambda>p. LineF (of_int (x1 + s * p), of_int y)
                                (of_int (x1 + s * (p + 15)), of_int y) color width)
                       [0, 25, 50, 75]))"
proof -
  have len: "py_pow_half ((x1 + s * 100 - x1) ^ 2 + (y - y) ^ 2) = 100"
    using line_length_100 [of "s * 100"] assms(3) by auto
  have neg: "rd (- 100) = - 100"
    using rd_of_int [of "- 100"] by simp
  have "float_of_int (s * 100) = of_int s * 100"
    using assms(3) by (auto simp: float_of_int_def rd_small_numerals neg)
  then have ux: "py_truediv (float_of_int (x1 + s * 100 - x1)) 100 = Inr (of_int s)"
    using assms(3) rd_of_int [of s] by (auto simp: py_truediv_def)
  have uy: "py_truediv (float_of_int (y - y)) 100 = Inr 0"
    by (simp add: py_truediv_def float_of_int_def rd_0)
  show ?thesis
    unfolding draw_dashed_line_def Let_def fst_conv snd_conv len
    by (simp only: ux uy dash_loop_horizontal [OF assms] sum.case option.map) simp
qed

text \<open>
  Claim C3, as stated, at the line from (0, 0) to (100, 0) with dash length 15 and gap
  length 10: four segments of length 15 are drawn, 60 pixels in all, which is less than
  \<open>100 - dash_length = 85\<close>.
\<close>

theorem dashed_line_coverage_counterexample:
  "draw_dashed_line [] (0, 0) (100, 0) [255, 0, 0] 2 15 10
     = Some (Inr [LineF (0, 0) (15, 0) [255, 0, 0] 2, LineF (25, 0) (40, 0) [255, 0, 0] 2,
                  LineF (50, 0) (65, 0) [255, 0, 0] 2, LineF (75, 0) (90, 0) [255, 0, 0] 2])
   \<and> sum_list (map segment_length
         [LineF (0, 0) (15, 0) [255, 0, 0] 2, LineF (25, 0) (40, 0) [255, 0, 0] 2,
          LineF (50, 0) (65, 0) [255, 0, 0] 2, LineF (75, 0) (90, 0) [255, 0, 0] 2]) = 60
   \<and> \<not> (100 - 15 \<le> (60 :: real))"
  using draw_dashed_line_horizontal [of 0 0 1 "[]" "[255, 0, 0]" 2]
  by (simp add: segment_length_horizontal)

text \<open>
  Claim C3, amended. On every horizontal line of length 100 (to the right, \<open>s = 1\<close>,
  or to the left, \<open>s = -1\<close>; coordinates below \<open>2 ^ 52\<close> in magnitude) with
  dash length 15 and gap length 10, exactly four segments are drawn, at the offsets
  0, 25, 50 and 75 from the start; each is 15 pixels long, so none is longer than
  \<open>dash_length\<close>, the last one ends 10 pixels before the end point, and the drawn
  lengths add up to 60, the gaps not being drawn.
\<close>

theorem dashed_line_100_15_10:
  assumes "\<bar>x1\<bar> < 2 ^ 52" and "\<bar>y\<bar> < 2 ^ 52" and "s \<in> {1, - 1}"
  shows "let segs = map (\<lambda>p. LineF (of_int (x1 + s * p), of_int y)
                              (of_int (x1 + s * (p + 15)), of_int y) color width)
                        [0, 25, 50, 75]
         in draw_dashed_line draw (x1, y) (x1 + s * 100, y) color width 15 10
              = Some (Inr (draw @ segs))
          \<and> map segment_length segs = [15, 15, 15, 15]
          \<and> sum_list (map segment_length segs) = 60"
  using draw_dashed_line_horizontal [OF assms] assms(3)
  by (auto simp: Let_def segment_length_horizontal simp del: segment_length.simps)

theorem dashed_line_100_15_10_witness:
  "\<bar>0 :: int\<bar> < 2 ^ 52 \<and> (1 :: int) \<in> {1, - 1}
   \<and> draw_dashed_line [] (0, 0) (0 + 1 * 100, 0) [0, 0, 0] 1 15 10
       = Some (Inr [LineF (0, 0) (15, 0) [0, 0, 0] 1, LineF (25, 0) (40, 0) [0, 0, 0] 1,
                    LineF (50, 0) (65, 0) [0, 0, 0] 1, LineF (75, 0) (90, 0) [0, 0, 0] 1])"
  using dashed_line_100_15_10 [of 0 0 1 "[0, 0, 0]" 1 "[]"]
  by (simp add: Let_def)

section \<open>Properties of the watermark\<close>

text \<open>
  Claim C9. With the anchor \<open>bottom-right\<close> the watermark text is drawn at
  \<open>x = canvas_w - text_w - 20\<close>, \<open>y = canvas_h - text_h - 20\<close>, where
  \<open>(text_w, text_h)\<close> is the size of the measured bounding box of the text. This
  holds for every canvas, in particular for those at least as large as the text.
\<close>

theorem watermark_bottom_right_origin:
  "draw_watermark E img text ''bottom-right'' opacity font_size color =
     (let bbox = textbbox E (get_default_font font_size) text;
          text_w = fst (snd (snd bbox)) - fst bbox;
          text_h = snd (snd (snd bbox)) - fst (snd bbox)
      in img \<lparr> canvas_ops := canvas_ops img @
           [Text (fst (canvas_size img) - text_w - 20, snd (canvas_size img) - text_h - 20)
              text (color @ [opacity]) (get_default_font font_size)] \<rparr>)"
  by (simp add: draw_watermark_def Let_def)

section \<open>The examples evaluated\<close>


lemma sb_example: "draw_single_scale_bar (example_env (9/10)) [] (compute_layout ''right'' 200 100 80 80 50 8) 200 100 80 80 fractional_scale_bar
  = [Line (305, 68) (308, 68) [0, 0, 0] 5,
  Line (305, 53) (305, 83) [0, 0, 0] 5,
  Line (308, 53) (308, 83) [0, 0, 0] 5,
  Text (270, 28)
   [CHR ''1'', CHR ''0'', CHR '' '', CHR 0xCE, CHR 0xBC, CHR ''m'']
   [0, 0, 0] (NamedFont ''Arial'' 24)]"
  by code_simp



section \<open>Properties of the scale bar\<close>

lemma py_int_truncates:
  "\<bar>of_int (py_int v)\<bar> \<le> \<bar>v\<bar> \<and> \<bar>v\<bar> < \<bar>of_int (py_int v)\<bar> + 1
   \<and> 0 \<le> of_int (py_int v) * v"
proof (cases "0 \<le> v")
  case True
  then have f: "0 \<le> \<lfloor>v\<rfloor>"
    by simp
  then have "\<bar>real_of_int \<lfloor>v\<rfloor>\<bar> = of_int \<lfloor>v\<rfloor>" "\<bar>v\<bar> = v"
    using True by simp_all
  moreover have "of_int \<lfloor>v\<rfloor> \<le> v" "v < of_int \<lfloor>v\<rfloor> + 1"
    by linarith+
  ultimately show ?thesis
    using True f by (simp add: py_int_def)
next
  case False
  then have c: "\<lceil>v\<rceil> \<le> 0"
    by (simp add: ceiling_le_zero)
  then have "\<bar>real_of_int \<lceil>v\<rceil>\<bar> = - of_int \<lceil>v\<rceil>" "\<bar>v\<bar> = - v"
    using False by simp_all
  moreover have "v \<le> of_int \<lceil>v\<rceil>" "of_int \<lceil>v\<rceil> < v + 1"
    by linarith+
  ultimately show ?thesis
    using False c by (simp add: py_int_def mult_nonpos_nonpos)
qed

lemma draw_scale_bar_first:
  "draw_scale_bar E draw (x, y) length_pixels length_um color thickness font_size show_text
      style font_family text_gap ! length draw
   = Line (x, y) (x + length_pixels, y) color thickness"
  by (simp add: draw_scale_bar_def Let_def nth_append)

lemma fmul_examples: "py_int (fmul 100 2) = 200" "py_int (fmul 10 (3/8)) = 3"
  by code_simp+

text \<open>
  Claim C4, amended. For every enabled scale-bar spec the bar is drawn as a horizontal
  line whose pixel length is \<open>int(length_um * pixels_per_um)\<close>: the float product
  truncated toward zero, not rounded. For \<open>length_um = 100\<close> and
  \<open>pixels_per_um = 2.0\<close> it is 200.
\<close>

theorem scale_bar_length_truncated:
  assumes "get_or False (sbc_enabled cfg)"
  shows "let v = fmul (get_or 100 (sbc_length_um cfg)) (get_or 1 (sbc_pixels_per_um cfg));
             n = py_int v
         in (\<exists>x y c t. draw_single_scale_bar E draw L pano_w pano_h zoom_w zoom_h cfg ! length draw
                = Line (x, y) (x + n, y) c t)
            \<and> \<bar>of_int n\<bar> \<le> \<bar>v\<bar> \<and> \<bar>v\<bar> < \<bar>of_int n\<bar> + 1 \<and> 0 \<le> of_int n * v
            \<and> py_int (fmul 100 2) = 200"
  using assms py_int_truncates [of "fmul (get_or 100 (sbc_length_um cfg)) (get_or 1 (sbc_pixels_per_um cfg))"]
  by (simp add: draw_single_scale_bar_def Let_def draw_scale_bar_first fmul_examples)

theorem scale_bar_length_truncated_witness:
  "get_or False (sbc_enabled fractional_scale_bar)
   \<and> (\<exists>x y c t. draw_single_scale_bar (example_env (9/10)) []
          (compute_layout ''right'' 200 100 80 80 50 8) 200 100 80 80 fractional_scale_bar ! 0
          = Line (x, y) (x + 3, y) c t)"
  using scale_bar_length_truncated [of fractional_scale_bar "example_env (9/10)" "[]"
      "compute_layout ''right'' 200 100 80 80 50 8" 200 100 80 80]
  by (simp add: fractional_scale_bar_def empty_scale_bar_config_def get_or_def Let_def
      fmul_examples)

text \<open>
  Claim C4, as stated, at \<open>length_um = 10\<close>, \<open>pixels_per_um = 0.375\<close>: the product
  is 3.75, which rounds to 4, and the bar that is drawn is 3 pixels long.
\<close>

theorem scale_bar_length_round_counterexample:
  "draw_single_scale_bar (example_env (9/10)) []
      (compute_layout ''right'' 200 100 80 80 50 8) 200 100 80 80 fractional_scale_bar ! 0
     = Line (305, 68) (308, 68) [0, 0, 0] 5
   \<and> sbc_length_um fractional_scale_bar = Some 10
   \<and> sbc_pixels_per_um fractional_scale_bar = Some (3/8)
   \<and> round (10 * (3/8) :: real) = 4
   \<and> 308 - 305 \<noteq> (4 :: int)"
  by (simp add: sb_example round_def) (simp add: fractional_scale_bar_def empty_scale_bar_config_def)


subsection \<open>The label\<close>

lemma round_half_even_nonneg: "0 \<le> y \<Longrightarrow> 0 \<le> round_half_even y"
  by (simp add: round_half_even_def Let_def)

lemma rd_nonneg: "0 \<le> x \<Longrightarrow> 0 \<le> rd x"
  by (simp add: rd_def Let_def pow2_def round_half_even_nonneg sgn_if)

lemma format_fixed_0:
  "format_fixed 0 x = (if x < 0 then ''-'' else '''') @ show_nat (nat (round_half_even \<bar>x\<bar>))"
  by (simp add: format_fixed_def Let_def)

lemma show_nat_digit: "n < 10 \<Longrightarrow> show_nat n = [digit_char n]"
  by (subst show_nat.simps) simp

lemma format_fixed_1:
  assumes "0 \<le> x"
  shows "format_fixed 1 x =
           show_nat (nat (round_half_even (x * 10)) div 10) @ ''.'' @
           [digit_char (nat (round_half_even (x * 10)) mod 10)]"
proof -
  have "show_nat (nat (round_half_even (x * 10)) mod 10)
          = [digit_char (nat (round_half_even (x * 10)) mod 10)]"
    by (intro show_nat_digit) simp
  then show ?thesis
    using assms by (simp add: format_fixed_def Let_def)
qed

lemma scale_bar_text_cases:
  "scale_bar_text length_um =
     (if 1000 \<le> length_um then
        (let n = nat (round_half_even (rd (length_um / 1000) * 10))
         in show_nat (n div 10) @ ''.'' @ [digit_char (n mod 10)] @ '' mm'')
      else (if length_um < 0 then ''-'' else '''') @
           show_nat (nat (round_half_even \<bar>length_um\<bar>)) @ '' '' @ micro_sign @ ''m'')"
proof (cases "1000 \<le> length_um")
  case True
  then have "0 \<le> rd (length_um / 1000)"
    by (intro rd_nonneg) simp
  then have "format_fixed 1 (rd (length_um / 1000)) =
           show_nat (nat (round_half_even (rd (length_um / 1000) * 10)) div 10) @ ''.'' @
           [digit_char (nat (round_half_even (rd (length_um / 1000) * 10)) mod 10)]"
    by (rule format_fixed_1)
  then show ?thesis
    using True unfolding scale_bar_text_def Let_def by simp
next
  case False
  then show ?thesis
    unfolding scale_bar_text_def format_fixed_0 by simp
qed

lemma scale_bar_text_examples:
  "scale_bar_text 100 = ''100 '' @ micro_sign @ ''m''" "scale_bar_text 1500 = ''1.5 mm''"
  by code_simp+

text \<open>
  With text enabled, the last thing \<open>draw_scale_bar\<close> draws is the label. Its text
  is the float \<open>length_um / 1000\<close> with one decimal followed by \<open>mm\<close> when
  \<open>length_um \<ge> 1000\<close>, and \<open>length_um\<close> as an integer followed by the micro
  sign and \<open>m\<close> otherwise (both rounded to nearest, a space before the unit); 100
  gives \<open>100 \<mu>m\<close> and 1500 gives \<open>1.5 mm\<close>. The point the text is drawn at is
  computed from the width and the height of the measured box: horizontally so that a
  box of that width starting at the point would be centred over the bar, vertically so
  that a box of that height starting at the point would end \<open>text_gap\<close> pixels above
  the bar (style \<open>line\<close>) or above the end ticks (otherwise). Where the measured box
  itself starts does not enter the computation.
\<close>

lemma scale_bar_label_origin:
  "(let font = get_font font_family font_size;
        text = scale_bar_text length_um;
        bbox = textbbox E font text;
        text_width = fst (snd (snd bbox)) - fst bbox;
        text_height = snd (snd (snd bbox)) - fst (snd bbox)
    in \<exists>text_x text_y.
         last (draw_scale_bar E draw (x, y) length_pixels length_um color thickness font_size
                 True style font_family text_gap)
           = Text (text_x, text_y) text color font
         \<and> 2 * (text_x - x) \<le> length_pixels - text_width
         \<and> length_pixels - text_width \<le> 2 * (text_x - x) + 1
         \<and> text_y + text_height + text_gap = (if style = ''line'' then y else y - 3 * thickness))
   \<and> scale_bar_text length_um =
       (if 1000 \<le> length_um then
          (let n = nat (round_half_even (rd (length_um / 1000) * 10))
           in show_nat (n div 10) @ ''.'' @ [digit_char (n mod 10)] @ '' mm'')
        else (if length_um < 0 then ''-'' else '''') @
             show_nat (nat (round_half_even \<bar>length_um\<bar>)) @ '' '' @ micro_sign @ ''m'')
   \<and> scale_bar_text 100 = ''100 '' @ micro_sign @ ''m''
   \<and> scale_bar_text 1500 = ''1.5 mm''
   \<and> last (draw_scale_bar (example_env (9/10)) [] (40, 90) 200 100 [0, 0, 0] 5 24 True
             ''ends'' ''Arial'' 5)
       = Text (98, 50) (''100 '' @ micro_sign @ ''m'') [0, 0, 0] (NamedFont ''Arial'' 24)"
proof (intro conjI)
  have d: "2 * ((a::int) div 2) \<le> a \<and> a \<le> 2 * (a div 2) + 1" for a
    by presburger
  show "let font = get_font font_family font_size;
        text = scale_bar_text length_um;
        bbox = textbbox E font text;
        text_width = fst (snd (snd bbox)) - fst bbox;
        text_height = snd (snd (snd bbox)) - fst (snd bbox)
    in \<exists>text_x text_y.
         last (draw_scale_bar E draw (x, y) length_pixels length_um color thickness font_size
                 True style font_family text_gap)
           = Text (text_x, text_y) text color font
         \<and> 2 * (text_x - x) \<le> length_pixels - text_width
         \<and> length_pixels - text_width \<le> 2 * (text_x - x) + 1
         \<and> text_y + text_height + text_gap = (if style = ''line'' then y else y - 3 * thickness)"
    using d [of "length_pixels - (fst (snd (snd (textbbox E (get_font font_family font_size) (scale_bar_text length_um)))) - fst (textbbox E (get_font font_family font_size) (scale_bar_text length_um)))"]
    by (simp add: draw_scale_bar_def Let_def)
  show "scale_bar_text length_um =
       (if 1000 \<le> length_um then
          (let n = nat (round_half_even (rd (length_um / 1000) * 10))
           in show_nat (n div 10) @ ''.'' @ [digit_char (n mod 10)] @ '' mm'')
        else (if length_um < 0 then ''-'' else '''') @
             show_nat (nat (round_half_even \<bar>length_um\<bar>)) @ '' '' @ micro_sign @ ''m'')"
    by (rule scale_bar_text_cases)
  show "scale_bar_text 100 = ''100 '' @ micro_sign @ ''m''" "scale_bar_text 1500 = ''1.5 mm''"
    by (rule scale_bar_text_examples)+
  show "last (draw_scale_bar (example_env (9/10)) [] (40, 90) 200 100 [0, 0, 0] 5 24 True
             ''ends'' ''Arial'' 5)
       = Text (98, 50) (''100 '' @ micro_sign @ ''m'') [0, 0, 0] (NamedFont ''Arial'' 24)"
    by code_simp
qed


section \<open>Properties of the orchestrator\<close>


















text \<open>
  Without the condition on the dash and gap lengths the loop of a dashed line need not
  end: with both lengths 0 the position never advances, and the call does not return.
\<close>

lemma dash_loop_zero_steps:
  assumes "dash_loop start u line_length color width dash_length gap_length current_pos drawing draw
             = Some r"
  shows "\<not> (dash_length = 0 \<and> gap_length = 0 \<and> of_int current_pos < line_length)"
  by (rule dash_loop.raw_induct
        [where P = "\<lambda>s u l c w d g p dr dw y. \<not> (d = 0 \<and> g = 0 \<and> of_int p < l)",
         OF _ assms])
     (auto split: if_splits)

lemma dashed_line_zero_dash_never_returns:
  "draw_dashed_line draw (0, 0) (100, 0) color width 0 0 = None"
proof -
  have "dash_loop (0, 0) (1, 0) 100 color width 0 0 0 True draw = None"
    using dash_loop_zero_steps [of "(0, 0)" "(1, 0)" 100 color width 0 0 0 True draw]
    by (cases "dash_loop (0, 0) (1, 0) 100 color width 0 0 0 True draw") auto
  then show ?thesis
    using line_length_100 [of 100]
    by (simp add: draw_dashed_line_def Let_def py_truediv_def float_of_int_def
        rd_small_numerals rd_0)
qed










end
